theory Spec2Isabelle
  imports Complex_Main
begin

section \<open>Scalars, vectors and labels\<close>

text \<open>
  The inline mesh utilities of \<^verbatim>\<open>meshOpsI.H\<close> work on labels (signed integers, with
  \<open>-1\<close> as the "none" value), scalars and three-component vectors. The primitives that
  decide on a computed scalar are modelled over arbitrary scalars and vectors, whose
  operations are parameters (see the library record below). The real numbers and the
  vectors over them, defined here, are where the formula of \<open>cellCentreAndVolume\<close> is
  stated (rounding is not part of that statement) and where the examples are computed.
\<close>

type_synonym label = int

type_synonym scalar = real

datatype vector = Vector (vx: real) (vy: real) (vz: real)

definition vzero :: vector where
  "vzero = Vector 0 0 0"

definition vadd :: "vector \<Rightarrow> vector \<Rightarrow> vector" where
  "vadd a b = Vector (vx a + vx b) (vy a + vy b) (vz a + vz b)"

definition vsub :: "vector \<Rightarrow> vector \<Rightarrow> vector" where
  "vsub a b = Vector (vx a - vx b) (vy a - vy b) (vz a - vz b)"

definition smul :: "scalar \<Rightarrow> vector \<Rightarrow> vector" where
  "smul k a = Vector (k * vx a) (k * vy a) (k * vz a)"

definition vdiv :: "vector \<Rightarrow> scalar \<Rightarrow> vector" where
  "vdiv a k = Vector (vx a / k) (vy a / k) (vz a / k)"

definition dot :: "vector \<Rightarrow> vector \<Rightarrow> scalar" where
  "dot a b = vx a * vx b + vy a * vy b + vz a * vz b"

definition cross :: "vector \<Rightarrow> vector \<Rightarrow> vector" where
  "cross a b =
     Vector (vy a * vz b - vz a * vy b) (vz a * vx b - vx a * vz b) (vx a * vy b - vy a * vx b)"

definition mag :: "vector \<Rightarrow> scalar" where
  "mag a = sqrt (dot a a)"

text \<open>An edge is a pair of point labels: \<open>start\<close> is entry 0 and \<open>end\<close> is entry 1.\<close>

type_synonym edge = "label \<times> label"

abbreviation edgeStart :: "edge \<Rightarrow> label" where
  "edgeStart e \<equiv> fst e"

abbreviation edgeEnd :: "edge \<Rightarrow> label" where
  "edgeEnd e \<equiv> snd e"

section \<open>Errors and array access\<close>

text \<open>
  \<open>FatalError\<close> is the result of \<^verbatim>\<open>FatalErrorIn(...) << ... << abort(FatalError)\<close>; it
  carries the leading text of the message. The \<^verbatim>\<open>operator[]\<close> of the list classes does
  not check its index, so a read outside the array has no defined result in the source:
  the model makes it the separate outcome \<open>OutOfRange\<close>.
\<close>

datatype error = FatalError string | OutOfRange

definition bindE :: "error + 'a \<Rightarrow> ('a \<Rightarrow> error + 'b) \<Rightarrow> error + 'b" where
  "bindE m f = (case m of Inl e \<Rightarrow> Inl e | Inr x \<Rightarrow> f x)"

definition elemAt :: "'a list \<Rightarrow> label \<Rightarrow> error + 'a" where
  "elemAt xs i = (if 0 \<le> i \<and> i < int (length xs) then Inr (xs ! nat i) else Inl OutOfRange)"

text \<open>
  \<^verbatim>\<open>fcIndex(i)\<close> is the index after \<open>i\<close> in a circular list,
  \<^verbatim>\<open>(i == size()-1 ? 0 : i+1)\<close>. Loop positions are naturals here, for which
  \<open>i = size - 1\<close> is \<open>i + 1 = size\<close>.
\<close>

definition fcIndex :: "'a list \<Rightarrow> nat \<Rightarrow> nat" where
  "fcIndex xs i = (if i + 1 = length xs then 0 else i + 1)"

section \<open>replaceLabel\<close>

text \<open>
  \<^verbatim>\<open>forAll(list, indexI)\<close> visits the positions \<open>0 ..< size\<close> in order. The loop
  overwrites the first entry equal to \<open>original\<close>, sets \<open>found\<close> and breaks.
\<close>

fun replaceLabel_loop ::
  "label \<Rightarrow> label \<Rightarrow> label list \<Rightarrow> nat list \<Rightarrow> label list \<times> bool" where
  "replaceLabel_loop original replacement list [] = (list, False)"
| "replaceLabel_loop original replacement list (indexI # rest) =
     (if list ! indexI = original then (list[indexI := replacement], True)
      else replaceLabel_loop original replacement list rest)"

definition replaceLabel :: "label \<Rightarrow> label \<Rightarrow> label list \<Rightarrow> error + label list" where
  "replaceLabel original replacement list =
     (case replaceLabel_loop original replacement list [0..<length list] of
        (list', found) \<Rightarrow>
          if \<not> found then Inl (FatalError ''Cannot find '') else Inr list')"

section \<open>findIsolatedPoint and tetApexPoint\<close>

text \<open>
  The test of \<^verbatim>\<open>findIsolatedPoint(baseFace, checkFace)\<close> on one label of
  \<open>checkFace\<close>: the three comparisons are joined by \<^verbatim>\<open>&&\<close>, so \<open>baseFace[1]\<close> and
  \<open>baseFace[2]\<close> are read only when the earlier comparisons succeeded.
\<close>

definition notOnBaseFace :: "label list \<Rightarrow> label \<Rightarrow> error + bool" where
  "notOnBaseFace baseFace l =
     bindE (elemAt baseFace 0) (\<lambda>b0.
       if l = b0 then Inr False
       else bindE (elemAt baseFace 1) (\<lambda>b1.
         if l = b1 then Inr False
         else bindE (elemAt baseFace 2) (\<lambda>b2. Inr (l \<noteq> b2))))"

fun findIsolatedPoint :: "label list \<Rightarrow> label list \<Rightarrow> error + label" where
  "findIsolatedPoint baseFace [] = Inr (- 1)"
| "findIsolatedPoint baseFace (l # rest) =
     (case notOnBaseFace baseFace l of
        Inl e \<Rightarrow> Inl e
      | Inr isolated \<Rightarrow> if isolated then Inr l else findIsolatedPoint baseFace rest)"

text \<open>
  The loop of \<^verbatim>\<open>tetApexPoint\<close> over the faces of the cell. Its state is
  \<open>(apexPoint, foundApex)\<close>. The exit test of the source is \<^verbatim>\<open>foundApex > -1\<close> on the
  \<^verbatim>\<open>bool foundApex\<close>, which the comparison promotes to the integer 0 or 1.
\<close>

fun tetApexPoint_loop ::
  "label list list \<Rightarrow> label list \<Rightarrow> label list \<Rightarrow> label \<times> bool \<Rightarrow> error + label \<times> bool" where
  "tetApexPoint_loop faces baseFace [] (apexPoint, foundApex) = Inr (apexPoint, foundApex)"
| "tetApexPoint_loop faces baseFace (faceLabel # rest) (apexPoint, foundApex) =
     (case elemAt faces faceLabel of
        Inl e \<Rightarrow> Inl e
      | Inr faceToCheck \<Rightarrow>
          (case findIsolatedPoint baseFace faceToCheck of
             Inl e \<Rightarrow> Inl e
           | Inr apexPoint' \<Rightarrow>
               if (of_bool foundApex :: int) > - 1 then Inr (apexPoint', True)
               else tetApexPoint_loop faces baseFace rest (apexPoint', foundApex)))"

definition tetApexPoint ::
  "label \<Rightarrow> label \<Rightarrow> label list list \<Rightarrow> label list list \<Rightarrow> error + label" where
  "tetApexPoint cIndex fIndex faces cells =
     bindE (elemAt cells cIndex) (\<lambda>cellToCheck.
     bindE (elemAt faces fIndex) (\<lambda>baseFace.
     bindE (tetApexPoint_loop faces baseFace cellToCheck (- 1, False)) (\<lambda>(apexPoint, foundApex).
       if \<not> foundApex then Inl (FatalError ''Could not find an apex point in cell: '')
       else Inr apexPoint)))"

section \<open>What the header takes from the library\<close>

text \<open>
  The header uses constants, operators and geometric formulas that are declared
  elsewhere: the constant \<^verbatim>\<open>VSMALL\<close>, the tolerance \<^verbatim>\<open>meshOps::matchTol_\<close>, the
  polygon formulas \<^verbatim>\<open>face::centre\<close> and \<^verbatim>\<open>face::normal\<close>, the triangle normal
  \<^verbatim>\<open>triPointRef(a, b, c).normal()\<close>, and the arithmetic of the types \<^verbatim>\<open>scalar\<close> and
  \<^verbatim>\<open>vector\<close>: the literals \<^verbatim>\<open>0.0\<close> and \<^verbatim>\<open>1.0\<close>, the comparison \<^verbatim>\<open><\<close> (with
  \<^verbatim>\<open>a > b\<close> read as \<^verbatim>\<open>b < a\<close>), \<^verbatim>\<open>+ - * /\<close>, \<^verbatim>\<open>mag\<close> and \<^verbatim>\<open>min\<close> on scalars, and
  \<^verbatim>\<open>+\<close>, \<^verbatim>\<open>-\<close>, scalar \<^verbatim>\<open>*\<close>, \<^verbatim>\<open>/\<close> by a scalar, the inner product \<^verbatim>\<open>&\<close> and \<^verbatim>\<open>mag\<close> on
  vectors. All of them are parameters of the model, collected in one record over a type
  \<open>'s\<close> of scalars and a type \<open>'v\<close> of vectors. Nothing is assumed about them, so what
  is proved of a primitive that decides on a computed scalar holds for the scalars as the
  machine computes them, rounding included; every expression keeps the order of operations
  of the source. The two polygon formulas are only ever called on the local face
  \<open>0, 1, ..., n-1\<close> over the list of local points, so each is a function of that list.
\<close>

record ('s, 'v) foamLib =
  VSMALL :: 's
  matchTol :: 's
  faceCentreOf :: "'v list \<Rightarrow> 'v"
  faceNormalOf :: "'v list \<Rightarrow> 'v"
  triNormalOf :: "'v \<Rightarrow> 'v \<Rightarrow> 'v \<Rightarrow> 'v"
  sZero :: 's
  sOne :: 's
  sLess :: "'s \<Rightarrow> 's \<Rightarrow> bool"
  sAdd :: "'s \<Rightarrow> 's \<Rightarrow> 's"
  sSub :: "'s \<Rightarrow> 's \<Rightarrow> 's"
  sMul :: "'s \<Rightarrow> 's \<Rightarrow> 's"
  sDiv :: "'s \<Rightarrow> 's \<Rightarrow> 's"
  sMag :: "'s \<Rightarrow> 's"
  sMin :: "'s \<Rightarrow> 's \<Rightarrow> 's"
  vAdd :: "'v \<Rightarrow> 'v \<Rightarrow> 'v"
  vSub :: "'v \<Rightarrow> 'v \<Rightarrow> 'v"
  vScale :: "'s \<Rightarrow> 'v \<Rightarrow> 'v"
  vDivide :: "'v \<Rightarrow> 's \<Rightarrow> 'v"
  vDot :: "'v \<Rightarrow> 'v \<Rightarrow> 's"
  vMag :: "'v \<Rightarrow> 's"

text \<open>
  The library over the real numbers, where \<open>cellCentreAndVolume\<close> is stated, and an
  instance of it for the examples: the double-precision value of \<open>VSMALL\<close>, a tolerance
  of \<open>1e-4\<close>, the triangle normal \<open>0.5 * ((b - a) ^ (c - a))\<close>, the polygon formulas as
  they are on a triangular face (the mean of the three points, and the normal of the
  triangle of the three points), and the arithmetic of the reals. The examples apply it to
  triangular faces only.
\<close>

type_synonym realLib = "(scalar, vector) foamLib"

definition triangleNormal :: "vector \<Rightarrow> vector \<Rightarrow> vector \<Rightarrow> vector" where
  "triangleNormal a b c = smul (1 / 2) (cross (vsub b a) (vsub c a))"

definition triFaceCentre :: "vector list \<Rightarrow> vector" where
  "triFaceCentre ps = smul (1 / 3) (vadd (vadd (ps ! 0) (ps ! 1)) (ps ! 2))"

definition triFaceNormal :: "vector list \<Rightarrow> vector" where
  "triFaceNormal ps = triangleNormal (ps ! 0) (ps ! 1) (ps ! 2)"

definition exampleLib :: realLib where
  "exampleLib =
     \<lparr>VSMALL = 1 / 10 ^ 300, matchTol = 1 / 10 ^ 4, faceCentreOf = triFaceCentre,
      faceNormalOf = triFaceNormal, triNormalOf = triangleNormal,
      sZero = 0, sOne = 1, sLess = (<), sAdd = (+), sSub = (-), sMul = times, sDiv = (/),
      sMag = abs, sMin = min, vAdd = vadd, vSub = vsub, vScale = smul, vDivide = vdiv,
      vDot = dot, vMag = mag\<rparr>"

section \<open>faceCentre and faceNormal\<close>

text \<open>
  Both functions first fill \<open>localPoints[pointI] = points[faceToCheck[pointI]]\<close> for
  every position of the face, then hand the local points to the library formula.
\<close>

fun localPoints :: "'v list \<Rightarrow> label list \<Rightarrow> error + 'v list" where
  "localPoints points [] = Inr []"
| "localPoints points (l # rest) =
     (case elemAt points l of
        Inl e \<Rightarrow> Inl e
      | Inr pt \<Rightarrow>
          (case localPoints points rest of
             Inl e \<Rightarrow> Inl e
           | Inr pts \<Rightarrow> Inr (pt # pts)))"

definition faceCentre :: "('s, 'v) foamLib \<Rightarrow> label list \<Rightarrow> 'v list \<Rightarrow> error + 'v" where
  "faceCentre lib faceToCheck points =
     bindE (localPoints points faceToCheck) (\<lambda>lp. Inr (faceCentreOf lib lp))"

definition faceNormal :: "('s, 'v) foamLib \<Rightarrow> label list \<Rightarrow> 'v list \<Rightarrow> error + 'v" where
  "faceNormal lib faceToCheck points =
     bindE (localPoints points faceToCheck) (\<lambda>lp. Inr (faceNormalOf lib lp))"

section \<open>cellCentreAndVolume\<close>

text \<open>
  \<open>cellCentreAndVolume\<close> computes a formula and takes no decision on a scalar. It is
  written with the arithmetic of the real numbers, over the library of the reals.
\<close>

text \<open>The first loop adds up the face centres of the cell.\<close>

fun cEst_loop ::
  "realLib \<Rightarrow> vector list \<Rightarrow> label list list \<Rightarrow> label list \<Rightarrow> vector \<Rightarrow> error + vector" where
  "cEst_loop lib points faces [] cEst = Inr cEst"
| "cEst_loop lib points faces (faceLabel # rest) cEst =
     (case elemAt faces faceLabel of
        Inl e \<Rightarrow> Inl e
      | Inr f \<Rightarrow>
          (case faceCentre lib f points of
             Inl e \<Rightarrow> Inl e
           | Inr fc \<Rightarrow> cEst_loop lib points faces rest (vadd cEst fc)))"

text \<open>The second loop accumulates \<open>(centre, volume)\<close> over the face pyramids.\<close>

fun pyramid_loop ::
  "realLib \<Rightarrow> label \<Rightarrow> vector list \<Rightarrow> label list list \<Rightarrow> label list \<Rightarrow> vector \<Rightarrow>
   label list \<Rightarrow> vector \<times> scalar \<Rightarrow> error + vector \<times> scalar" where
  "pyramid_loop lib cIndex points faces owner cEst [] (centre, volume) = Inr (centre, volume)"
| "pyramid_loop lib cIndex points faces owner cEst (faceLabel # rest) (centre, volume) =
     (case elemAt faces faceLabel of
        Inl e \<Rightarrow> Inl e
      | Inr f \<Rightarrow>
          (case faceNormal lib f points of
             Inl e \<Rightarrow> Inl e
           | Inr fArea0 \<Rightarrow>
               (case faceCentre lib f points of
                  Inl e \<Rightarrow> Inl e
                | Inr fCentre \<Rightarrow>
                    (case elemAt owner faceLabel of
                       Inl e \<Rightarrow> Inl e
                     | Inr own \<Rightarrow>
                         (let fArea = (if own \<noteq> cIndex then smul (- 1) fArea0 else fArea0);
                              pyr3Vol = dot fArea (vsub fCentre cEst);
                              pc = vadd (smul (3 / 4) fCentre) (smul (1 / 4) cEst)
                          in pyramid_loop lib cIndex points faces owner cEst rest
                               (vadd centre (smul pyr3Vol pc), volume + pyr3Vol))))))"

text \<open>The result is the pair of the two output parameters \<open>(centre, volume)\<close>.\<close>

definition cellCentreAndVolume ::
  "realLib \<Rightarrow> label \<Rightarrow> vector list \<Rightarrow> label list list \<Rightarrow> label list list \<Rightarrow> label list \<Rightarrow>
   error + vector \<times> scalar" where
  "cellCentreAndVolume lib cIndex points faces cells owner =
     bindE (elemAt cells cIndex) (\<lambda>cellToCheck.
     bindE (cEst_loop lib points faces cellToCheck vzero) (\<lambda>cEst0.
       let cEst = vdiv cEst0 (real (length cellToCheck)) in
       bindE (pyramid_loop lib cIndex points faces owner cEst cellToCheck (vzero, 0))
         (\<lambda>(centre, volume). Inr (vdiv centre (volume + VSMALL lib), volume * (1 / 3)))))"

section \<open>whichSide\<close>

text \<open>The counters \<open>nP\<close> and \<open>nN\<close> are the state of the loop; \<^verbatim>\<open>nP && nN\<close> tests both
  for being non-zero.\<close>

fun whichSide_loop ::
  "('s, 'v) foamLib \<Rightarrow> 'v list \<Rightarrow> 'v \<Rightarrow> 'v \<Rightarrow> label list \<Rightarrow> label \<times> label \<Rightarrow> error + label" where
  "whichSide_loop lib points dir p [] (nP, nN) = Inr (if nP \<noteq> 0 then 1 else - 1)"
| "whichSide_loop lib points dir p (pointLabel # rest) (nP, nN) =
     (case elemAt points pointLabel of
        Inl e \<Rightarrow> Inl e
      | Inr pt \<Rightarrow>
          (let t = vDot lib dir (vSub lib pt p);
               nP' = (if sLess lib (sZero lib) t then nP + 1 else nP);
               nN' = (if sLess lib (sZero lib) t then nN
                      else if sLess lib t (sZero lib) then nN + 1 else nN)
           in if nP' \<noteq> 0 \<and> nN' \<noteq> 0 then Inr 0
              else whichSide_loop lib points dir p rest (nP', nN')))"

definition whichSide ::
  "('s, 'v) foamLib \<Rightarrow> label list \<Rightarrow> 'v list \<Rightarrow> 'v \<Rightarrow> 'v \<Rightarrow> error + label" where
  "whichSide lib cellPoints points dir p = whichSide_loop lib points dir p cellPoints (0, 0)"

section \<open>pointInFace and pointInCell\<close>



fun pointInCell_loop ::
  "('s, 'v) foamLib \<Rightarrow> label \<Rightarrow> label list list \<Rightarrow> label list \<Rightarrow> 'v list \<Rightarrow> 'v \<Rightarrow>
   label list \<Rightarrow> error + bool" where
  "pointInCell_loop lib cIndex faces owner points checkPoint [] = Inr True"
| "pointInCell_loop lib cIndex faces owner points checkPoint (faceLabel # rest) =
     (case elemAt faces faceLabel of
        Inl e \<Rightarrow> Inl e
      | Inr f \<Rightarrow>
          (case faceCentre lib f points of
             Inl e \<Rightarrow> Inl e
           | Inr xf \<Rightarrow>
               (case faceNormal lib f points of
                  Inl e \<Rightarrow> Inl e
                | Inr nf \<Rightarrow>
                    (let faceToPoint = vSub lib xf checkPoint in
                     if sLess lib (sZero lib) (vDot lib faceToPoint nf) then
                       (case elemAt owner faceLabel of
                          Inl e \<Rightarrow> Inl e
                        | Inr own \<Rightarrow>
                            if own \<noteq> cIndex then Inr False
                            else pointInCell_loop lib cIndex faces owner points checkPoint rest)
                     else
                       (case elemAt owner faceLabel of
                          Inl e \<Rightarrow> Inl e
                        | Inr own \<Rightarrow>
                            if own = cIndex then Inr False
                            else pointInCell_loop lib cIndex faces owner points checkPoint
                                   rest)))))"

definition pointInCell ::
  "('s, 'v) foamLib \<Rightarrow> label \<Rightarrow> label list \<Rightarrow> label list list \<Rightarrow> label list \<Rightarrow> 'v list \<Rightarrow>
   'v \<Rightarrow> error + bool" where
  "pointInCell lib cIndex cellToCheck faces owner points checkPoint =
     pointInCell_loop lib cIndex faces owner points checkPoint cellToCheck"

section \<open>segmentSegmentIntersection and segmentFaceIntersection\<close>

text \<open>
  Both return their \<^verbatim>\<open>bool\<close> together with the output parameter, which keeps the value
  it had on entry (the last argument) on every path that does not assign it.
\<close>

definition segmentSegmentIntersection ::
  "('s, 'v) foamLib \<Rightarrow> edge \<Rightarrow> edge \<Rightarrow> 'v list \<Rightarrow> 'v list \<Rightarrow> 'v \<Rightarrow> error + bool \<times> 'v" where
  "segmentSegmentIntersection lib fromSegment toSegment fromPoints toPoints intPoint =
     bindE (elemAt fromPoints (edgeEnd fromSegment)) (\<lambda>fromEnd.
     bindE (elemAt fromPoints (edgeStart fromSegment)) (\<lambda>fromStart.
     bindE (elemAt toPoints (edgeEnd toSegment)) (\<lambda>toEnd.
     bindE (elemAt toPoints (edgeStart toSegment)) (\<lambda>toStart.
       let u = vSub lib fromEnd fromStart;
           v = vSub lib toEnd toStart;
           p = fromStart;
           q = toStart;
           w = vSub lib p q;
           a = vDot lib u u; b = vDot lib u v; c = vDot lib v v;
           d = vDot lib u w; e = vDot lib v w;
           denom = sSub lib (sMul lib a c) (sMul lib b b)
       in if sLess lib (sMag lib denom) (VSMALL lib) then Inr (False, intPoint)
          else
            let s = sDiv lib (sSub lib (sMul lib b e) (sMul lib c d)) denom;
                t = sDiv lib (sSub lib (sMul lib a e) (sMul lib b d)) denom
            in if sLess lib s (sZero lib) \<or> sLess lib t (sZero lib) \<or>
                  sLess lib (sOne lib) s \<or> sLess lib (sOne lib) t
               then Inr (False, intPoint)
               else
                 let dist = vMag lib (vSub lib (vAdd lib w (vScale lib s u)) (vScale lib t v));
                     tolerance = sMul lib (matchTol lib) (sMin lib (vMag lib u) (vMag lib v))
                 in if sLess lib tolerance dist then Inr (False, intPoint)
                    else Inr (True, vAdd lib fromStart (vScale lib s u))))))"


section \<open>insertLabel and insertPointLabels\<close>

text \<open>
  \<open>insertLabel\<close> copies the list into \<open>newList\<close>, one entry per pass, and writes
  \<open>newLabel\<close> after the first entry that is followed (circularly) by the other of the
  two labels. \<open>newList\<close> is modelled as the entries written so far: the source writes
  them at \<open>index++\<close> into an array of \<open>origSize + 1\<close> entries, and reads that array only
  after all of them are written (when \<open>found\<close> holds).
\<close>

fun insertLabel_loop ::
  "label \<Rightarrow> label \<Rightarrow> label \<Rightarrow> label list \<Rightarrow> nat list \<Rightarrow> label list \<times> bool \<Rightarrow>
   label list \<times> bool" where
  "insertLabel_loop newLabel labelA labelB list [] (newList, found) = (newList, found)"
| "insertLabel_loop newLabel labelA labelB list (itemI # rest) (newList, found) =
     (let newList1 = newList @ [list ! itemI];
          nextI = fcIndex list itemI
      in if ((list ! itemI = labelA \<and> list ! nextI = labelB) \<or>
             (list ! itemI = labelB \<and> list ! nextI = labelA)) \<and> \<not> found
         then insertLabel_loop newLabel labelA labelB list rest (newList1 @ [newLabel], True)
         else insertLabel_loop newLabel labelA labelB list rest (newList1, found))"

definition insertLabel :: "label \<Rightarrow> label \<Rightarrow> label \<Rightarrow> label list \<Rightarrow> error + label list" where
  "insertLabel newLabel labelA labelB list =
     (case insertLabel_loop newLabel labelA labelB list [0..<length list] ([], False) of
        (newList, found) \<Rightarrow>
          if \<not> found then Inl (FatalError ''Cannot insert '') else Inr newList)"

text \<open>
  The inner loop of \<open>insertPointLabels\<close> for one key of the hash set: the first
  position whose triangle \<open>(points[newFace[pI]], points[key], points[newFace[nI]])\<close> has a
  normal with a positive computed component along \<open>refNorm\<close> calls \<open>insertLabel\<close> and
  breaks; when no position qualifies the face is left as it is.
\<close>

fun insertPointLabels_inner ::
  "('s, 'v) foamLib \<Rightarrow> 'v \<Rightarrow> 'v list \<Rightarrow> label \<Rightarrow> label list \<Rightarrow> nat list \<Rightarrow>
   error + label list" where
  "insertPointLabels_inner lib refNorm points key newFace [] = Inr newFace"
| "insertPointLabels_inner lib refNorm points key newFace (pI # rest) =
     (let nI = fcIndex newFace pI in
      case elemAt points (newFace ! pI) of
        Inl e \<Rightarrow> Inl e
      | Inr a \<Rightarrow>
          (case elemAt points key of
             Inl e \<Rightarrow> Inl e
           | Inr b \<Rightarrow>
               (case elemAt points (newFace ! nI) of
                  Inl e \<Rightarrow> Inl e
                | Inr c \<Rightarrow>
                    (let newNorm = triNormalOf lib a b c in
                     if sLess lib (sZero lib) (vDot lib refNorm newNorm) then
                       insertLabel key (newFace ! pI) (newFace ! nI) newFace
                     else insertPointLabels_inner lib refNorm points key newFace rest))))"

definition insertPointLabel ::
  "('s, 'v) foamLib \<Rightarrow> 'v \<Rightarrow> 'v list \<Rightarrow> label \<Rightarrow> label list \<Rightarrow> error + label list" where
  "insertPointLabel lib refNorm points key newFace =
     insertPointLabels_inner lib refNorm points key newFace [0..<length newFace]"

text \<open>
  The outer loop runs over the keys of the hash set \<open>pLabels\<close>. The order in which a
  hash set is traversed is up to the library, so \<open>pLabels\<close> is given as the list of its
  keys in traversal order. The result is the new value of \<open>modFace\<close>.
\<close>

fun insertPointLabels_outer ::
  "('s, 'v) foamLib \<Rightarrow> 'v \<Rightarrow> 'v list \<Rightarrow> label list \<Rightarrow> label list \<Rightarrow> error + label list" where
  "insertPointLabels_outer lib refNorm points [] newFace = Inr newFace"
| "insertPointLabels_outer lib refNorm points (key # rest) newFace =
     (case insertPointLabel lib refNorm points key newFace of
        Inl e \<Rightarrow> Inl e
      | Inr newFace' \<Rightarrow> insertPointLabels_outer lib refNorm points rest newFace')"

definition insertPointLabels ::
  "('s, 'v) foamLib \<Rightarrow> 'v \<Rightarrow> 'v list \<Rightarrow> label list \<Rightarrow> label list \<Rightarrow> error + label list" where
  "insertPointLabels lib refNorm points pLabels modFace =
     insertPointLabels_outer lib refNorm points pLabels modFace"

section \<open>Quantities named by the description of the primitives\<close>

text \<open>
  A computed scalar that compares neither above nor below \<^verbatim>\<open>0.0\<close>. This is what the
  primitives can tell of a scalar that is equal to zero: they only ever compare with
  \<^verbatim>\<open><\<close> and \<^verbatim>\<open>>\<close>.
\<close>

definition computesZero :: "('s, 'v) foamLib \<Rightarrow> 's \<Rightarrow> bool" where
  "computesZero lib x \<longleftrightarrow> \<not> sLess lib (sZero lib) x \<and> \<not> sLess lib x (sZero lib)"



text \<open>
  The three reasons for which \<open>segmentSegmentIntersection\<close> is said to return false, for
  segment directions \<open>u\<close>, \<open>v\<close> and the offset \<open>w\<close> of the two start points, all on the
  computed scalars: the closest-point system is near-singular; a parameter of the closest
  points is outside a range from \<open>lo\<close> to \<open>hi\<close>; the closest points are further apart
  than the tolerance, which is \<open>matchTol\<close> times the shorter of the two segment lengths.
\<close>

definition segmentDenom :: "('s, 'v) foamLib \<Rightarrow> 'v \<Rightarrow> 'v \<Rightarrow> 's" where
  "segmentDenom lib u v =
     sSub lib (sMul lib (vDot lib u u) (vDot lib v v)) (sMul lib (vDot lib u v) (vDot lib u v))"

definition nearSingular :: "('s, 'v) foamLib \<Rightarrow> 'v \<Rightarrow> 'v \<Rightarrow> bool" where
  "nearSingular lib u v \<longleftrightarrow> sLess lib (sMag lib (segmentDenom lib u v)) (VSMALL lib)"

definition paramS :: "('s, 'v) foamLib \<Rightarrow> 'v \<Rightarrow> 'v \<Rightarrow> 'v \<Rightarrow> 's" where
  "paramS lib u v w =
     sDiv lib
       (sSub lib (sMul lib (vDot lib u v) (vDot lib v w)) (sMul lib (vDot lib v v) (vDot lib u w)))
       (segmentDenom lib u v)"

definition paramT :: "('s, 'v) foamLib \<Rightarrow> 'v \<Rightarrow> 'v \<Rightarrow> 'v \<Rightarrow> 's" where
  "paramT lib u v w =
     sDiv lib
       (sSub lib (sMul lib (vDot lib u u) (vDot lib v w)) (sMul lib (vDot lib u v) (vDot lib u w)))
       (segmentDenom lib u v)"

definition outsideRange :: "('s, 'v) foamLib \<Rightarrow> 's \<Rightarrow> 's \<Rightarrow> 's \<Rightarrow> 's \<Rightarrow> bool" where
  "outsideRange lib lo hi s t \<longleftrightarrow>
     sLess lib s lo \<or> sLess lib t lo \<or> sLess lib hi s \<or> sLess lib hi t"

definition closestApproach :: "('s, 'v) foamLib \<Rightarrow> 'v \<Rightarrow> 'v \<Rightarrow> 'v \<Rightarrow> 's" where
  "closestApproach lib u v w =
     vMag lib (vSub lib (vAdd lib w (vScale lib (paramS lib u v w) u))
                        (vScale lib (paramT lib u v w) v))"

definition proximityTolerance :: "('s, 'v) foamLib \<Rightarrow> 'v \<Rightarrow> 'v \<Rightarrow> 's" where
  "proximityTolerance lib u v = sMul lib (matchTol lib) (sMin lib (vMag lib u) (vMag lib v))"

text \<open>
  The result of \<open>segmentSegmentIntersection\<close> as described, for segments given by their
  end points and for a parameter range from \<open>lo\<close> to \<open>hi\<close>: false, with \<open>intPoint\<close> as it
  was, for any of the three reasons; otherwise true with the point \<open>start + s u\<close>.
\<close>

definition segmentSegment_described ::
  "('s, 'v) foamLib \<Rightarrow> 's \<Rightarrow> 's \<Rightarrow> 'v \<Rightarrow> 'v \<Rightarrow> 'v \<Rightarrow> 'v \<Rightarrow> 'v \<Rightarrow> bool \<times> 'v" where
  "segmentSegment_described lib lo hi fromStart fromEnd toStart toEnd intPoint =
     (let u = vSub lib fromEnd fromStart;
          v = vSub lib toEnd toStart;
          w = vSub lib fromStart toStart
      in if nearSingular lib u v \<or>
            outsideRange lib lo hi (paramS lib u v w) (paramT lib u v w) \<or>
            sLess lib (proximityTolerance lib u v) (closestApproach lib u v w)
         then (False, intPoint)
         else (True, vAdd lib fromStart (vScale lib (paramS lib u v w) u)))"

text \<open>
  The description of \<open>cellCentreAndVolume\<close> speaks of the faces of the cell through
  three quantities each: the face centre, the face area vector and the recorded owner.
  \<open>faceInfo\<close> reads them for one face label; \<open>mapE\<close> reads a list and fails when one
  element does.
\<close>

fun mapE :: "('a \<Rightarrow> error + 'b) \<Rightarrow> 'a list \<Rightarrow> error + 'b list" where
  "mapE g [] = Inr []"
| "mapE g (x # xs) =
     (case g x of
        Inl e \<Rightarrow> Inl e
      | Inr y \<Rightarrow> (case mapE g xs of Inl e \<Rightarrow> Inl e | Inr ys \<Rightarrow> Inr (y # ys)))"

type_synonym faceData = "vector \<times> vector \<times> label"

definition faceInfo ::
  "realLib \<Rightarrow> vector list \<Rightarrow> label list list \<Rightarrow> label list \<Rightarrow> label \<Rightarrow> error + faceData" where
  "faceInfo lib points faces owner faceLabel =
     bindE (elemAt faces faceLabel) (\<lambda>f.
     bindE (faceCentre lib f points) (\<lambda>fCentre.
     bindE (faceNormal lib f points) (\<lambda>fArea.
     bindE (elemAt owner faceLabel) (\<lambda>own. Inr (fCentre, fArea, own)))))"

primrec vsum :: "vector list \<Rightarrow> vector" where
  "vsum [] = vzero"
| "vsum (v # vs) = vadd v (vsum vs)"

text \<open>
  The quantities of the description: the estimated centroid (the average of the face
  centres), the area vector of a face turned over when the owner of the face is not the
  cell, three times the signed volume of the pyramid over a face, the centre of that
  pyramid, and the two accumulated sums.
\<close>

definition estimatedCentroid :: "faceData list \<Rightarrow> vector" where
  "estimatedCentroid infos = vdiv (vsum (map fst infos)) (real (length infos))"

definition orientedArea :: "label \<Rightarrow> faceData \<Rightarrow> vector" where
  "orientedArea cIndex info =
     (case info of (fCentre, fArea, own) \<Rightarrow> if own \<noteq> cIndex then smul (- 1) fArea else fArea)"

definition pyr3Vol :: "label \<Rightarrow> vector \<Rightarrow> faceData \<Rightarrow> scalar" where
  "pyr3Vol cIndex cEst info = dot (orientedArea cIndex info) (vsub (fst info) cEst)"

definition pyramidCentre :: "vector \<Rightarrow> faceData \<Rightarrow> vector" where
  "pyramidCentre cEst info = vadd (smul (3 / 4) (fst info)) (smul (1 / 4) cEst)"

definition accumulatedVolume :: "label \<Rightarrow> faceData list \<Rightarrow> scalar" where
  "accumulatedVolume cIndex infos =
     sum_list (map (pyr3Vol cIndex (estimatedCentroid infos)) infos)"

definition accumulatedCentre :: "label \<Rightarrow> faceData list \<Rightarrow> vector" where
  "accumulatedCentre cIndex infos =
     vsum (map (\<lambda>info. smul (pyr3Vol cIndex (estimatedCentroid infos) info)
                         (pyramidCentre (estimatedCentroid infos) info)) infos)"

text \<open>
  The result as the description gives it (the accumulated centre divided by the
  accumulated volume), and the result with the divisor \<open>volume + VSMALL\<close>.
\<close>

definition cellCentreAndVolume_described ::
  "realLib \<Rightarrow> label \<Rightarrow> vector list \<Rightarrow> label list list \<Rightarrow> label list list \<Rightarrow> label list \<Rightarrow>
   error + vector \<times> scalar" where
  "cellCentreAndVolume_described lib cIndex points faces cells owner =
     bindE (elemAt cells cIndex) (\<lambda>cellToCheck.
     bindE (mapE (faceInfo lib points faces owner) cellToCheck) (\<lambda>infos.
       Inr (vdiv (accumulatedCentre cIndex infos) (accumulatedVolume cIndex infos),
            accumulatedVolume cIndex infos / 3)))"

definition cellCentreAndVolume_guarded ::
  "realLib \<Rightarrow> label \<Rightarrow> vector list \<Rightarrow> label list list \<Rightarrow> label list list \<Rightarrow> label list \<Rightarrow>
   error + vector \<times> scalar" where
  "cellCentreAndVolume_guarded lib cIndex points faces cells owner =
     bindE (elemAt cells cIndex) (\<lambda>cellToCheck.
     bindE (mapE (faceInfo lib points faces owner) cellToCheck) (\<lambda>infos.
       Inr (vdiv (accumulatedCentre cIndex infos) (accumulatedVolume cIndex infos + VSMALL lib),
            accumulatedVolume cIndex infos / 3)))"

text \<open>
  A thin tetrahedral cell for the examples: one edge of length 1 and two of length
  \<open>1e-150\<close> at the origin, so that three times its volume, \<open>0.5e-300\<close>, is of the
  size of \<open>VSMALL\<close>. The four faces are numbered with their normals pointing out of the
  cell, which owns all of them.
\<close>

definition tetEps :: scalar where
  "tetEps = 1 / 10 ^ 150"

definition tetPoints :: "vector list" where
  "tetPoints = [Vector 0 0 0, Vector 1 0 0, Vector 0 tetEps 0, Vector 0 0 tetEps]"

definition tetFaces :: "label list list" where
  "tetFaces = [[0, 2, 1], [0, 1, 3], [0, 3, 2], [1, 2, 3]]"

text \<open>The face data (centre, area vector, owner) of the four faces of the thin cell.\<close>

definition tetInfos :: "faceData list" where
  "tetInfos =
     [(Vector (1 / 3) (tetEps / 3) 0, Vector 0 0 (- (tetEps / 2)), 0),
      (Vector (1 / 3) 0 (tetEps / 3), Vector 0 (- (tetEps / 2)) 0, 0),
      (Vector 0 (tetEps / 3) (tetEps / 3), Vector (- (tetEps * tetEps / 2)) 0 0, 0),
      (Vector (1 / 3) (tetEps / 3) (tetEps / 3),
       Vector (tetEps * tetEps / 2) (tetEps / 2) (tetEps / 2), 0)]"

text \<open>
  For the description of the label insertion: \<open>labelA\<close> and \<open>labelB\<close> are circularly
  adjacent at position \<open>k\<close> of a list, in either order; and a key was put into a face
  right after a position \<open>j\<close> whose triangle (point of the label at \<open>j\<close>, point of the
  key, point of the next label) has a normal with a positive computed component along
  \<open>refNorm\<close>.
\<close>

definition adjacentAt :: "label list \<Rightarrow> label \<Rightarrow> label \<Rightarrow> nat \<Rightarrow> bool" where
  "adjacentAt list labelA labelB k \<longleftrightarrow>
     k < length list \<and>
     ((list ! k = labelA \<and> list ! fcIndex list k = labelB) \<or>
      (list ! k = labelB \<and> list ! fcIndex list k = labelA))"

definition positiveAt ::
  "('s, 'v) foamLib \<Rightarrow> 'v \<Rightarrow> 'v list \<Rightarrow> label \<Rightarrow> label list \<Rightarrow> nat \<Rightarrow> bool" where
  "positiveAt lib refNorm points key face j \<longleftrightarrow>
     (case (elemAt points (face ! j), elemAt points key, elemAt points (face ! fcIndex face j)) of
        (Inr a, Inr b, Inr c) \<Rightarrow> sLess lib (sZero lib) (vDot lib refNorm (triNormalOf lib a b c))
      | _ \<Rightarrow> False)"

definition insertedAtPositive ::
  "('s, 'v) foamLib \<Rightarrow> 'v \<Rightarrow> 'v list \<Rightarrow> label \<Rightarrow> label list \<Rightarrow> label list \<Rightarrow> bool" where
  "insertedAtPositive lib refNorm points key face face' \<longleftrightarrow>
     (\<exists>j\<in>{..<length face}.
        face' = take (Suc j) face @ key # drop (Suc j) face \<and>
        positiveAt lib refNorm points key face j)"

text \<open>
  The insertions that \<open>insertPointLabels\<close> makes, key by key: the key, the face before
  the pass of the outer loop and the face after it. The description says of every pass
  that it leaves the face alone or puts the key after a position with a positive
  triangle normal.
\<close>

fun insertionTrace ::
  "('s, 'v) foamLib \<Rightarrow> 'v \<Rightarrow> 'v list \<Rightarrow> label list \<Rightarrow> label list \<Rightarrow>
   (label \<times> label list \<times> label list) list" where
  "insertionTrace lib refNorm points [] face = []"
| "insertionTrace lib refNorm points (key # rest) face =
     (case insertPointLabel lib refNorm points key face of
        Inl e \<Rightarrow> []
      | Inr face' \<Rightarrow> (key, face, face') # insertionTrace lib refNorm points rest face')"

definition insertsOnlyAtPositive ::
  "('s, 'v) foamLib \<Rightarrow> 'v \<Rightarrow> 'v list \<Rightarrow> label list \<Rightarrow> label list \<Rightarrow> bool" where
  "insertsOnlyAtPositive lib refNorm points pLabels modFace \<longleftrightarrow>
     (\<forall>(key, face, face')\<in>set (insertionTrace lib refNorm points pLabels modFace).
        face' = face \<or> insertedAtPositive lib refNorm points key face face')"

section \<open>Shared facts\<close>

lemma bindE_Inr [simp]: "bindE (Inr x) f = f x"
  by (simp add: bindE_def)

lemma bindE_Inl [simp]: "bindE (Inl e) f = Inl e"
  by (simp add: bindE_def)



lemma fcIndex_less: "i < length xs \<Longrightarrow> fcIndex xs i < length xs"
  by (auto simp: fcIndex_def)


lemma exampleLib_sel:
  "VSMALL exampleLib = 1 / 10 ^ 300" "matchTol exampleLib = 1 / 10 ^ 4"
  "faceCentreOf exampleLib = triFaceCentre" "faceNormalOf exampleLib = triFaceNormal"
  "triNormalOf exampleLib = triangleNormal"
  "sZero exampleLib = 0" "sOne exampleLib = 1" "sLess exampleLib = (<)"
  "sAdd exampleLib = (+)" "sSub exampleLib = (-)" "sMul exampleLib = times"
  "sDiv exampleLib = (/)" "sMag exampleLib = abs" "sMin exampleLib = min"
  "vAdd exampleLib = vadd" "vSub exampleLib = vsub" "vScale exampleLib = smul"
  "vDivide exampleLib = vdiv" "vDot exampleLib = dot" "vMag exampleLib = mag"
  by (simp_all add: exampleLib_def)

lemma computesZero_zero:
  "\<not> sLess lib (sZero lib) (sZero lib) \<Longrightarrow> computesZero lib (sZero lib)"
  by (simp add: computesZero_def)

lemma computesZero_example: "computesZero exampleLib x \<longleftrightarrow> x = 0"
  by (auto simp: computesZero_def exampleLib_sel)


lemma example_faceCentre:
  "faceCentre exampleLib [0, 1, 2] [Vector 0 0 0, Vector 1 0 0, Vector 0 1 0] =
   Inr (Vector (1 / 3) (1 / 3) 0)"
  by (simp add: faceCentre_def elemAt_def exampleLib_def triFaceCentre_def vadd_def smul_def)

lemma example_faceNormal:
  "faceNormal exampleLib [0, 1, 2] [Vector 0 0 0, Vector 1 0 0, Vector 0 1 0] =
   Inr (Vector 0 0 (1 / 2))"
  by (simp add: faceNormal_def elemAt_def exampleLib_def triFaceNormal_def triangleNormal_def
      cross_def vsub_def smul_def)

section \<open>replaceLabel: the first occurrence\<close>

lemma replaceLabel_loop_absent:
  "\<forall>j\<in>set js. list ! j \<noteq> original \<Longrightarrow>
   replaceLabel_loop original replacement list js = (list, False)"
  by (induction js) auto

lemma replaceLabel_loop_first:
  "list ! i = original \<Longrightarrow> \<forall>j\<in>set js. list ! j \<noteq> original \<Longrightarrow>
   replaceLabel_loop original replacement list (js @ i # ks) = (list[i := replacement], True)"
  by (induction js) auto

lemma upt_split_at: "i < n \<Longrightarrow> [0..<n] = [0..<i] @ i # [Suc i..<n]"
  by (metis less_imp_add_positive upt_add_eq_append upt_conv_Cons zero_le)

text \<open>
  C8. When \<open>original\<close> occurs in the list, \<open>replaceLabel\<close> returns the list with its
  first occurrence (position \<open>i\<close>, no occurrence before it) overwritten by
  \<open>replacement\<close> and every other entry, later occurrences of \<open>original\<close> included, as it
  was; when \<open>original\<close> does not occur, the result is the fatal error.
\<close>

theorem replaceLabel_first_occurrence:
  "(original \<in> set list \<longrightarrow>
      (\<exists>i<length list. list ! i = original \<and> (\<forall>j<i. list ! j \<noteq> original) \<and>
         replaceLabel original replacement list = Inr (list[i := replacement]))) \<and>
   (original \<notin> set list \<longrightarrow>
      replaceLabel original replacement list = Inl (FatalError ''Cannot find ''))"
proof (intro conjI impI)
  assume "original \<in> set list"
  then have ex: "\<exists>i. i < length list \<and> list ! i = original"
    by (auto simp: in_set_conv_nth)
  define i where "i = (LEAST i. i < length list \<and> list ! i = original)"
  have i: "i < length list \<and> list ! i = original"
    unfolding i_def using ex by (rule LeastI_ex)
  have least: "\<forall>j<i. list ! j \<noteq> original"
  proof (intro allI impI notI)
    fix j assume "j < i" and "list ! j = original"
    then have "j < length list \<and> list ! j = original" using i by simp
    then have "i \<le> j" unfolding i_def by (rule Least_le)
    with \<open>j < i\<close> show False by simp
  qed
  have "replaceLabel_loop original replacement list ([0..<i] @ i # [Suc i..<length list]) =
        (list[i := replacement], True)"
    using i least by (intro replaceLabel_loop_first) auto
  then have "replaceLabel original replacement list = Inr (list[i := replacement])"
    using i by (simp add: replaceLabel_def upt_split_at [symmetric])
  with i least
  show "\<exists>i<length list. list ! i = original \<and> (\<forall>j<i. list ! j \<noteq> original) \<and>
          replaceLabel original replacement list = Inr (list[i := replacement])"
    by blast
next
  assume "original \<notin> set list"
  then have "\<forall>j\<in>set [0..<length list]. list ! j \<noteq> original"
    by (auto simp: in_set_conv_nth)
  then show "replaceLabel original replacement list = Inl (FatalError ''Cannot find '')"
    by (simp add: replaceLabel_def replaceLabel_loop_absent)
qed

theorem replaceLabel_first_occurrence_witness:
  "replaceLabel 7 9 [4, 7, 5, 7] = Inr [4, 9, 5, 7] \<and>
   replaceLabel 8 9 [4, 7, 5, 7] = Inl (FatalError ''Cannot find '')"
proof -
  have a: "(7::int) \<in> set [4, 7, 5, 7]" by simp
  have b: "(8::int) \<notin> set [4, 7, 5, 7]" by simp
  from replaceLabel_first_occurrence [of 7 "[4, 7, 5, 7]" 9] a
  obtain i where i: "i < length [4, 7, 5, 7 :: int]" "[4, 7, 5, 7 :: int] ! i = 7"
      "\<forall>j<i. [4, 7, 5, 7 :: int] ! j \<noteq> 7"
      "replaceLabel 7 9 [4, 7, 5, 7] = Inr ([4, 7, 5, 7][i := 9])"
    by blast
  have "i = 1"
  proof (rule ccontr)
    assume "i \<noteq> 1"
    with i(1,2) have "1 < i" by (auto simp: nth_Cons' split: if_splits)
    with i(3) have "[4, 7, 5, 7 :: int] ! 1 \<noteq> 7" by blast
    then show False by simp
  qed
  with i(4) have "replaceLabel 7 9 [4, 7, 5, 7] = Inr [4, 9, 5, 7]" by simp
  moreover from replaceLabel_first_occurrence [of 8 "[4, 7, 5, 7]" 9] b
  have "replaceLabel 8 9 [4, 7, 5, 7] = Inl (FatalError ''Cannot find '')" by blast
  ultimately show ?thesis by simp
qed

section \<open>tetApexPoint on a cell without an isolated point\<close>

text \<open>
  Whatever \<open>findIsolatedPoint\<close> gives for the first face of the cell is the result:
  the loop stops there, and the fatal branch is left to the cell without faces.
\<close>

lemma tetApexPoint_first_face:
  assumes "elemAt cells cIndex = Inr (faceLabel # rest)"
    and "elemAt faces fIndex = Inr baseFace"
    and "elemAt faces faceLabel = Inr faceToCheck"
    and "findIsolatedPoint baseFace faceToCheck = Inr apexPoint"
  shows "tetApexPoint cIndex fIndex faces cells = Inr apexPoint"
  using assms by (simp add: tetApexPoint_def)

lemma tetApexPoint_no_faces:
  assumes "elemAt cells cIndex = Inr []"
    and "elemAt faces fIndex = Inr baseFace"
  shows "tetApexPoint cIndex fIndex faces cells =
         Inl (FatalError ''Could not find an apex point in cell: '')"
  using assms by (simp add: tetApexPoint_def)

text \<open>
  C1. Cell 0 has the single face 0, and face 0 is also the base face, so no face of the
  cell holds a point off the base face: \<open>findIsolatedPoint\<close> gives \<open>-1\<close>. The exit test
  \<open>foundApex > -1\<close> holds in the first pass of the loop whatever was found, and
  \<open>tetApexPoint\<close> returns \<open>-1\<close> as its apex instead of the fatal error.
\<close>

theorem tetApexPoint_returns_minus_one:
  "findIsolatedPoint [0, 1, 2] [0, 1, 2] = Inr (- 1) \<and>
   tetApexPoint 0 0 [[0, 1, 2]] [[0]] = Inr (- 1)"
  by (simp add: tetApexPoint_def notOnBaseFace_def elemAt_def)

section \<open>whichSide: all points on the plane\<close>

lemma whichSide_loop_on_plane:
  "\<forall>l\<in>set ls. \<exists>pt. elemAt points l = Inr pt \<and>
      computesZero lib (vDot lib dir (vSub lib pt p)) \<Longrightarrow>
   whichSide_loop lib points dir p ls (0, 0) = Inr (- 1)"
  by (induction ls) (auto simp: computesZero_def)

text \<open>
  C10. When every label of \<open>cellPoints\<close> names a point whose computed
  \<open>t = dir & (point - p)\<close> is zero, that is, compares neither above nor below \<open>0.0\<close>
  (the empty list included), \<open>whichSide\<close> returns \<open>-1\<close>: the all-on-plane case counts as
  the negative side, not as straddling (0).
\<close>

theorem whichSide_all_on_plane:
  "\<forall>l\<in>set cellPoints. \<exists>pt. elemAt points l = Inr pt \<and>
      computesZero lib (vDot lib dir (vSub lib pt p)) \<Longrightarrow>
   whichSide lib cellPoints points dir p = Inr (- 1)"
  unfolding whichSide_def by (rule whichSide_loop_on_plane)

theorem whichSide_all_on_plane_witness:
  "whichSide exampleLib [0, 1] [Vector 0 0 0, Vector 1 2 0] (Vector 0 0 1) (Vector 5 5 0) =
     Inr (- 1) \<and>
   whichSide exampleLib [] [] (Vector 0 0 1) (Vector 5 5 0) = Inr (- 1)"
proof -
  have "\<forall>l\<in>set [0, 1]. \<exists>pt. elemAt [Vector 0 0 0, Vector 1 2 0] l = Inr pt \<and>
          computesZero exampleLib (vDot exampleLib (Vector 0 0 1) (vSub exampleLib pt (Vector 5 5 0)))"
    by (simp add: elemAt_def computesZero_example exampleLib_sel dot_def vsub_def)
  then have a: "whichSide exampleLib [0, 1] [Vector 0 0 0, Vector 1 2 0] (Vector 0 0 1)
      (Vector 5 5 0) = Inr (- 1)"
    by (rule whichSide_all_on_plane)
  have "\<forall>l\<in>set ([]::label list). \<exists>pt. elemAt [] l = Inr pt \<and>
          computesZero exampleLib (vDot exampleLib (Vector 0 0 1) (vSub exampleLib pt (Vector 5 5 0)))"
    by simp
  then have b: "whichSide exampleLib [] [] (Vector 0 0 1) (Vector 5 5 0) = Inr (- 1)"
    by (rule whichSide_all_on_plane)
  from a b show ?thesis by simp
qed

section \<open>pointInCell: a point exactly on a face plane\<close>

lemma pointInCell_loop_append:
  "pointInCell_loop lib cIndex faces owner points checkPoint (xs @ ys) =
     (case pointInCell_loop lib cIndex faces owner points checkPoint xs of
        Inl e \<Rightarrow> Inl e
      | Inr b \<Rightarrow> if b then pointInCell_loop lib cIndex faces owner points checkPoint ys
                 else Inr False)"
  by (induction xs) (auto split: sum.splits)

text \<open>
  C9. Let a face of the cell (at any position: \<open>pre\<close> before it, \<open>post\<close> after it) have
  a computed \<open>(faceCentre - point) & faceNormal\<close> that is zero, that is, compares neither
  above nor below \<open>0.0\<close>. When the cell is the recorded owner of the face,
  \<open>pointInCell\<close> never returns true, and it returns false whenever the faces before this
  one are read without a fault. When the cell is not the owner, the face changes nothing:
  the result is that of the cell without this face.
\<close>

theorem pointInCell_boundary_asymmetric:
  assumes "elemAt faces faceLabel = Inr f"
    and "faceCentre lib f points = Inr xf"
    and "faceNormal lib f points = Inr nf"
    and "computesZero lib (vDot lib (vSub lib xf checkPoint) nf)"
    and "elemAt owner faceLabel = Inr own"
  shows "(own = cIndex \<longrightarrow>
            pointInCell lib cIndex (pre @ faceLabel # post) faces owner points checkPoint \<noteq>
              Inr True \<and>
            (\<forall>b. pointInCell lib cIndex pre faces owner points checkPoint = Inr b \<longrightarrow>
               pointInCell lib cIndex (pre @ faceLabel # post) faces owner points checkPoint =
                 Inr False)) \<and>
         (own \<noteq> cIndex \<longrightarrow>
            pointInCell lib cIndex (pre @ faceLabel # post) faces owner points checkPoint =
            pointInCell lib cIndex (pre @ post) faces owner points checkPoint)"
  using assms
  by (auto simp: pointInCell_def pointInCell_loop_append computesZero_def split: sum.splits)

theorem pointInCell_boundary_asymmetric_witness:
  "pointInCell exampleLib 0 [0] [[0, 1, 2]] [0] [Vector 0 0 0, Vector 1 0 0, Vector 0 1 0]
     (Vector (1 / 4) (1 / 4) 0) = Inr False \<and>
   pointInCell exampleLib 1 [0] [[0, 1, 2]] [0] [Vector 0 0 0, Vector 1 0 0, Vector 0 1 0]
     (Vector (1 / 4) (1 / 4) 0) = Inr True"
proof -
  let ?pts = "[Vector 0 0 0, Vector 1 0 0, Vector 0 1 0]"
  let ?cp = "Vector (1 / 4) (1 / 4) 0"
  have f: "elemAt [[0, 1, 2 :: label]] 0 = Inr [0, 1, 2]"
    by (simp add: elemAt_def)
  note xf = example_faceCentre
  note nf = example_faceNormal
  have on_plane: "computesZero exampleLib
      (vDot exampleLib (vSub exampleLib (Vector (1 / 3) (1 / 3) 0) ?cp) (Vector 0 0 (1 / 2)))"
    by (simp add: computesZero_example exampleLib_sel dot_def vsub_def)
  have own: "elemAt [0 :: label] 0 = Inr 0"
    by (simp add: elemAt_def)
  have empty: "pointInCell exampleLib c [] [[0, 1, 2]] [0] ?pts ?cp = Inr True" for c
    by (simp add: pointInCell_def)
  from pointInCell_boundary_asymmetric [OF f xf nf on_plane own, of 0 "[]" "[]"] empty [of 0]
  have a: "pointInCell exampleLib 0 [0] [[0, 1, 2]] [0] ?pts ?cp = Inr False"
    by auto
  from pointInCell_boundary_asymmetric [OF f xf nf on_plane own, of 1 "[]" "[]"] empty [of 1]
  have b: "pointInCell exampleLib 1 [0] [[0, 1, 2]] [0] ?pts ?cp = Inr True"
    by simp
  from a b show ?thesis by simp
qed

section \<open>pointInFace: the test over all edges\<close>




section \<open>Singular intersection systems\<close>



section \<open>segmentSegmentIntersection: when it returns false\<close>

lemma segmentSegmentIntersection_eq_described:
  assumes "elemAt fromPoints (edgeEnd fromSegment) = Inr fromEnd"
    and "elemAt fromPoints (edgeStart fromSegment) = Inr fromStart"
    and "elemAt toPoints (edgeEnd toSegment) = Inr toEnd"
    and "elemAt toPoints (edgeStart toSegment) = Inr toStart"
  shows "segmentSegmentIntersection lib fromSegment toSegment fromPoints toPoints intPoint =
         Inr (segmentSegment_described lib (sZero lib) (sOne lib)
                fromStart fromEnd toStart toEnd intPoint)"
  using assms
  by (simp add: segmentSegmentIntersection_def segmentSegment_described_def Let_def
      nearSingular_def outsideRange_def proximityTolerance_def closestApproach_def
      paramS_def paramT_def segmentDenom_def)

text \<open>
  The examples: the segment from \<open>(0,0,0)\<close> to \<open>(1,0,0)\<close> against a segment of length 1
  in the direction \<open>(0,1,0)\<close>.
\<close>

lemma unit_pieces:
  "nearSingular exampleLib (Vector 1 0 0) (Vector 0 1 0) = False"
  "paramS exampleLib (Vector 1 0 0) (Vector 0 1 0) (Vector x y z) = - x"
  "paramT exampleLib (Vector 1 0 0) (Vector 0 1 0) (Vector x y z) = y"
  "closestApproach exampleLib (Vector 1 0 0) (Vector 0 1 0) (Vector x y z) = \<bar>z\<bar>"
  "proximityTolerance exampleLib (Vector 1 0 0) (Vector 0 1 0) = 1 / 10 ^ 4"
  by (simp_all add: nearSingular_def paramS_def paramT_def closestApproach_def
      proximityTolerance_def segmentDenom_def exampleLib_sel dot_def mag_def vadd_def vsub_def
      smul_def)

lemma unit_described:
  "segmentSegment_described exampleLib lo hi (Vector 0 0 0) (Vector 1 0 0)
     (Vector qx qy qz) (Vector qx (qy + 1) qz) ip =
   (if outsideRange exampleLib lo hi qx (- qy) \<or> 1 / 10 ^ 4 < \<bar>qz\<bar> then (False, ip)
    else (True, Vector qx 0 0))"
proof -
  have d: "vSub exampleLib (Vector 1 0 0) (Vector 0 0 0) = Vector 1 0 0"
    "vSub exampleLib (Vector qx (qy + 1) qz) (Vector qx qy qz) = Vector 0 1 0"
    "vSub exampleLib (Vector 0 0 0) (Vector qx qy qz) = Vector (- qx) (- qy) (- qz)"
    by (simp_all add: exampleLib_sel vsub_def)
  show ?thesis
    unfolding segmentSegment_described_def Let_def d unit_pieces
    by (simp add: exampleLib_sel vadd_def smul_def)
qed

lemma unit_from:
  "elemAt [Vector 0 0 0, Vector 1 0 0] (edgeEnd (0, 1)) = Inr (Vector 1 0 0)"
  "elemAt [Vector 0 0 0, Vector 1 0 0] (edgeStart (0, 1)) = Inr (Vector 0 0 0)"
  by (simp_all add: elemAt_def)

lemma unit_to:
  "elemAt [Vector qx qy qz, Vector qx (qy + 1) qz] (edgeEnd (0, 1)) = Inr (Vector qx (qy + 1) qz)"
  "elemAt [Vector qx qy qz, Vector qx (qy + 1) qz] (edgeStart (0, 1)) = Inr (Vector qx qy qz)"
  by (simp_all add: elemAt_def)

lemma unit_code:
  "segmentSegmentIntersection exampleLib (0, 1) (0, 1) [Vector 0 0 0, Vector 1 0 0]
     [Vector qx qy qz, Vector qx (qy + 1) qz] ip =
   Inr (if qx < 0 \<or> - qy < 0 \<or> 1 < qx \<or> 1 < - qy \<or> 1 / 10 ^ 4 < \<bar>qz\<bar> then (False, ip)
        else (True, Vector qx 0 0))"
  unfolding segmentSegmentIntersection_eq_described [OF unit_from unit_to] unit_described
  by (simp add: outsideRange_def exampleLib_sel)

text \<open>
  C2, amended. For two segments whose end points are in their arrays,
  \<open>segmentSegmentIntersection\<close> returns false (and leaves \<open>intPoint\<close> as it was) exactly
  when the computed closest-point system is near-singular, or a computed parameter \<open>s\<close>,
  \<open>t\<close> of the closest points is outside the range from \<open>0.0\<close> to \<open>1.0\<close> itself, with
  no tolerance on the range, or the closest points are further apart than \<open>matchTol\<close>
  times the shorter segment length; otherwise it returns true and \<open>intPoint\<close> is the point
  \<open>start + s u\<close>.
\<close>

theorem segmentSegmentIntersection_false_iff:
  assumes "elemAt fromPoints (edgeEnd fromSegment) = Inr fromEnd"
    and "elemAt fromPoints (edgeStart fromSegment) = Inr fromStart"
    and "elemAt toPoints (edgeEnd toSegment) = Inr toEnd"
    and "elemAt toPoints (edgeStart toSegment) = Inr toStart"
  shows "segmentSegmentIntersection lib fromSegment toSegment fromPoints toPoints intPoint =
         Inr (segmentSegment_described lib (sZero lib) (sOne lib)
                fromStart fromEnd toStart toEnd intPoint)"
  using assms by (rule segmentSegmentIntersection_eq_described)

theorem segmentSegmentIntersection_false_iff_witness:
  "segmentSegmentIntersection exampleLib (0, 1) (0, 1) [Vector 0 0 0, Vector 1 0 0]
     [Vector (1 / 2) (- 1 / 2) 0, Vector (1 / 2) (1 / 2) 0] (Vector 9 9 9) =
     Inr (True, Vector (1 / 2) 0 0) \<and>
   segmentSegmentIntersection exampleLib (0, 1) (0, 1) [Vector 0 0 0, Vector 1 0 0]
     [Vector (1 / 2) (- 1 / 2) 1, Vector (1 / 2) (1 / 2) 1] (Vector 9 9 9) =
     Inr (False, Vector 9 9 9) \<and>
   segmentSegmentIntersection exampleLib (0, 1) (0, 1) [Vector 0 0 0, Vector 1 0 0]
     [Vector 0 (- 1 / 2) 0, Vector 0 (1 / 2) 0] (Vector 9 9 9) =
     Inr (True, Vector 0 0 0)"
proof -
  have a: "segmentSegmentIntersection exampleLib (0, 1) (0, 1) [Vector 0 0 0, Vector 1 0 0]
      [Vector (1 / 2) (- 1 / 2) 0, Vector (1 / 2) (- 1 / 2 + 1) 0] (Vector 9 9 9) =
      Inr (True, Vector (1 / 2) 0 0)"
    unfolding segmentSegmentIntersection_false_iff [OF unit_from unit_to] unit_described
    by (simp add: outsideRange_def exampleLib_sel)
  have b: "segmentSegmentIntersection exampleLib (0, 1) (0, 1) [Vector 0 0 0, Vector 1 0 0]
      [Vector (1 / 2) (- 1 / 2) 1, Vector (1 / 2) (- 1 / 2 + 1) 1] (Vector 9 9 9) =
      Inr (False, Vector 9 9 9)"
    unfolding segmentSegmentIntersection_false_iff [OF unit_from unit_to] unit_described
    by (simp add: outsideRange_def exampleLib_sel)
  have c: "segmentSegmentIntersection exampleLib (0, 1) (0, 1) [Vector 0 0 0, Vector 1 0 0]
      [Vector 0 (- 1 / 2) 0, Vector 0 (- 1 / 2 + 1) 0] (Vector 9 9 9) =
      Inr (True, Vector 0 0 0)"
    unfolding segmentSegmentIntersection_false_iff [OF unit_from unit_to] unit_described
    by (simp add: outsideRange_def exampleLib_sel)
  have h: "(- 1 / 2 + 1 :: real) = 1 / 2" by simp
  from a b c show ?thesis unfolding h by simp
qed

text \<open>
  C2 as stated, with a parameter range scaled by the tolerance, fails either way. Both
  segments have length 1, so the tolerance is \<open>1e-4\<close>. A segment that starts on the
  other one (\<open>s = 0\<close>) is accepted by the code and would be rejected for a range
  narrowed by the tolerance; a segment that meets the line of the other one just before
  its start (\<open>s = -2^-20\<close>) is rejected by the code and would be accepted for a range
  widened by the tolerance.
\<close>

theorem segmentSegmentIntersection_range_counterexample:
  "segmentSegmentIntersection exampleLib (0, 1) (0, 1) [Vector 0 0 0, Vector 1 0 0]
     [Vector 0 (- 1 / 2) 0, Vector 0 (1 / 2) 0] (Vector 9 9 9) =
     Inr (True, Vector 0 0 0) \<and>
   segmentSegment_described exampleLib (1 / 10 ^ 4) (1 - 1 / 10 ^ 4)
     (Vector 0 0 0) (Vector 1 0 0) (Vector 0 (- 1 / 2) 0) (Vector 0 (1 / 2) 0) (Vector 9 9 9) =
     (False, Vector 9 9 9) \<and>
   segmentSegmentIntersection exampleLib (0, 1) (0, 1) [Vector 0 0 0, Vector 1 0 0]
     [Vector (- (1 / 2 ^ 20)) (- 1 / 2) 0, Vector (- (1 / 2 ^ 20)) (1 / 2) 0] (Vector 9 9 9) =
     Inr (False, Vector 9 9 9) \<and>
   segmentSegment_described exampleLib (- (1 / 10 ^ 4)) (1 + 1 / 10 ^ 4)
     (Vector 0 0 0) (Vector 1 0 0) (Vector (- (1 / 2 ^ 20)) (- 1 / 2) 0)
     (Vector (- (1 / 2 ^ 20)) (1 / 2) 0) (Vector 9 9 9) =
     (True, Vector (- (1 / 2 ^ 20)) 0 0)"
proof -
  have h: "(- 1 / 2 + 1 :: real) = 1 / 2" by simp
  have a: "segmentSegmentIntersection exampleLib (0, 1) (0, 1) [Vector 0 0 0, Vector 1 0 0]
     [Vector 0 (- 1 / 2) 0, Vector 0 (1 / 2) 0] (Vector 9 9 9) = Inr (True, Vector 0 0 0)"
    using unit_code [of 0 "- 1 / 2" 0 "Vector 9 9 9"] unfolding h by simp
  have b: "segmentSegment_described exampleLib (1 / 10 ^ 4) (1 - 1 / 10 ^ 4)
     (Vector 0 0 0) (Vector 1 0 0) (Vector 0 (- 1 / 2) 0) (Vector 0 (1 / 2) 0) (Vector 9 9 9) =
     (False, Vector 9 9 9)"
    using unit_described [of "1 / 10 ^ 4" "1 - 1 / 10 ^ 4" 0 "- 1 / 2" 0 "Vector 9 9 9"]
    unfolding h by (simp add: outsideRange_def exampleLib_sel)
  have c: "segmentSegmentIntersection exampleLib (0, 1) (0, 1) [Vector 0 0 0, Vector 1 0 0]
     [Vector (- (1 / 2 ^ 20)) (- 1 / 2) 0, Vector (- (1 / 2 ^ 20)) (1 / 2) 0] (Vector 9 9 9) =
     Inr (False, Vector 9 9 9)"
    using unit_code [of "- (1 / 2 ^ 20)" "- 1 / 2" 0 "Vector 9 9 9"] unfolding h by simp
  have d: "segmentSegment_described exampleLib (- (1 / 10 ^ 4)) (1 + 1 / 10 ^ 4)
     (Vector 0 0 0) (Vector 1 0 0) (Vector (- (1 / 2 ^ 20)) (- 1 / 2) 0)
     (Vector (- (1 / 2 ^ 20)) (1 / 2) 0) (Vector 9 9 9) =
     (True, Vector (- (1 / 2 ^ 20)) 0 0)"
    using unit_described [of "- (1 / 10 ^ 4)" "1 + 1 / 10 ^ 4" "- (1 / 2 ^ 20)" "- 1 / 2" 0
        "Vector 9 9 9"]
    unfolding h by (simp add: outsideRange_def exampleLib_sel)
  from a b c d show ?thesis by simp
qed

section \<open>cellCentreAndVolume: the pyramid sums\<close>

lemma vadd_assoc: "vadd (vadd a b) c = vadd a (vadd b c)"
  by (simp add: vadd_def)

lemma vadd_vzero [simp]: "vadd a vzero = a" "vadd vzero a = a"
  by (simp_all add: vadd_def vzero_def)

lemma elemAt_Inl: "elemAt xs i = Inl e \<Longrightarrow> e = OutOfRange"
  by (auto simp: elemAt_def split: if_splits)

lemma localPoints_Inl: "localPoints points f = Inl e \<Longrightarrow> e = OutOfRange"
  by (induction f) (auto split: sum.splits dest: elemAt_Inl)

lemma faceCentre_Inl: "faceCentre lib f points = Inl e \<Longrightarrow> e = OutOfRange"
  by (auto simp: faceCentre_def bindE_def split: sum.splits dest: localPoints_Inl)

lemma faceNormal_Inl: "faceNormal lib f points = Inl e \<Longrightarrow> e = OutOfRange"
  by (auto simp: faceNormal_def bindE_def split: sum.splits dest: localPoints_Inl)

lemma faceNormal_Inr_faceCentre:
  "faceNormal lib f points = Inr fa \<Longrightarrow> \<exists>fc. faceCentre lib f points = Inr fc"
  by (auto simp: faceCentre_def faceNormal_def bindE_def split: sum.splits)

lemma mapE_length: "mapE g xs = Inr ys \<Longrightarrow> length ys = length xs"
  by (induction xs arbitrary: ys) (auto split: sum.splits)

lemma faceInfo_Inl: "faceInfo lib points faces owner faceLabel = Inl e \<Longrightarrow> e = OutOfRange"
  by (auto simp: faceInfo_def bindE_def split: sum.splits
      dest: elemAt_Inl faceCentre_Inl faceNormal_Inl)

lemma mapE_faceInfo_Inl:
  "mapE (faceInfo lib points faces owner) cell = Inl e \<Longrightarrow> e = OutOfRange"
  by (induction cell) (auto split: sum.splits dest: faceInfo_Inl)

text \<open>The first loop: the sum of the face centres, or a fault where \<open>mapE\<close> has one.\<close>

lemma cEst_loop_sum:
  "mapE (faceInfo lib points faces owner) cell = Inr infos \<Longrightarrow>
   cEst_loop lib points faces cell acc = Inr (vadd acc (vsum (map fst infos)))"
proof (induction cell arbitrary: infos acc)
  case Nil
  then show ?case by simp
next
  case (Cons fl cell)
  from Cons.prems obtain info rest where
    info: "faceInfo lib points faces owner fl = Inr info"
    and rest: "mapE (faceInfo lib points faces owner) cell = Inr rest"
    and infos: "infos = info # rest"
    by (auto split: sum.splits)
  from info obtain f where "elemAt faces fl = Inr f" "faceCentre lib f points = Inr (fst info)"
    by (auto simp: faceInfo_def bindE_def split: sum.splits)
  then show ?case
    using Cons.IH [OF rest] by (simp add: infos vadd_assoc)
qed

lemma pyramid_loop_sum:
  "mapE (faceInfo lib points faces owner) cell = Inr infos \<Longrightarrow>
   pyramid_loop lib cIndex points faces owner cEst cell (centre, volume) =
     Inr (vadd centre (vsum (map (\<lambda>info. smul (pyr3Vol cIndex cEst info) (pyramidCentre cEst info)) infos)),
          volume + sum_list (map (pyr3Vol cIndex cEst) infos))"
proof (induction cell arbitrary: infos centre volume)
  case Nil
  then show ?case by simp
next
  case (Cons fl cell)
  from Cons.prems obtain info rest where
    info: "faceInfo lib points faces owner fl = Inr info"
    and rest: "mapE (faceInfo lib points faces owner) cell = Inr rest"
    and infos: "infos = info # rest"
    by (auto split: sum.splits)
  from info obtain f fc fa own where f: "elemAt faces fl = Inr f"
    "faceCentre lib f points = Inr fc" "faceNormal lib f points = Inr fa"
    "elemAt owner fl = Inr own" "info = (fc, fa, own)"
    by (auto simp: faceInfo_def bindE_def split: sum.splits)
  show ?case
    using Cons.IH [OF rest] f
    by (simp add: infos vadd_assoc Let_def pyr3Vol_def pyramidCentre_def orientedArea_def
        add.assoc)
qed

lemma cEst_loop_Inl: "cEst_loop lib points faces cell acc = Inl e \<Longrightarrow> e = OutOfRange"
  by (induction cell arbitrary: acc) (auto split: sum.splits dest: elemAt_Inl faceCentre_Inl)

lemma pyramid_loop_fault:
  "mapE (faceInfo lib points faces owner) cell = Inl e \<Longrightarrow>
   pyramid_loop lib cIndex points faces owner cEst cell (centre, volume) = Inl OutOfRange"
proof (induction cell arbitrary: centre volume e)
  case Nil
  then show ?case by simp
next
  case (Cons fl cell)
  show ?case
  proof (cases "faceInfo lib points faces owner fl")
    case bad: (Inl e1)
    show ?thesis
    proof (cases "elemAt faces fl")
      case (Inl e2)
      then show ?thesis by (simp add: elemAt_Inl [OF Inl])
    next
      case f: (Inr f)
      show ?thesis
      proof (cases "faceNormal lib f points")
        case (Inl e3)
        then show ?thesis using f by (simp add: faceNormal_Inl [OF Inl])
      next
        case fa: (Inr fa)
        then obtain fc where fc: "faceCentre lib f points = Inr fc"
          by (auto dest: faceNormal_Inr_faceCentre)
        show ?thesis
        proof (cases "elemAt owner fl")
          case (Inl e4)
          then show ?thesis using f fa fc by (simp add: elemAt_Inl [OF Inl])
        next
          case (Inr own)
          then show ?thesis using bad f fa fc by (simp add: faceInfo_def)
        qed
      qed
    qed
  next
    case (Inr info)
    then obtain f fc fa own where f: "elemAt faces fl = Inr f"
      "faceCentre lib f points = Inr fc" "faceNormal lib f points = Inr fa"
      "elemAt owner fl = Inr own" "info = (fc, fa, own)"
      by (auto simp: faceInfo_def bindE_def split: sum.splits)
    from Cons.prems Inr obtain e2 where "mapE (faceInfo lib points faces owner) cell = Inl e2"
      by (auto split: sum.splits)
    from Cons.IH [OF this] show ?thesis
      using f by (simp add: Let_def)
  qed
qed

lemma cellCentreAndVolume_eq_guarded:
  "cellCentreAndVolume lib cIndex points faces cells owner =
   cellCentreAndVolume_guarded lib cIndex points faces cells owner"
proof (cases "elemAt cells cIndex")
  case (Inl e)
  then show ?thesis
    by (simp add: cellCentreAndVolume_def cellCentreAndVolume_guarded_def)
next
  case cell: (Inr cellToCheck)
  show ?thesis
  proof (cases "mapE (faceInfo lib points faces owner) cellToCheck")
    case (Inl e)
    then have e: "e = OutOfRange" by (rule mapE_faceInfo_Inl)
    have "bindE (cEst_loop lib points faces cellToCheck vzero) (\<lambda>cEst0.
            bindE (pyramid_loop lib cIndex points faces owner
                     (vdiv cEst0 (real (length cellToCheck))) cellToCheck (vzero, 0)) g) =
          Inl OutOfRange" for g :: "vector \<times> scalar \<Rightarrow> error + vector \<times> scalar"
      using pyramid_loop_fault [OF Inl] cEst_loop_Inl [of lib points faces cellToCheck vzero]
      by (cases "cEst_loop lib points faces cellToCheck vzero") auto
    then show ?thesis
      using cell Inl e
      by (simp add: cellCentreAndVolume_def cellCentreAndVolume_guarded_def Let_def)
  next
    case (Inr infos)
    have len: "length infos = length cellToCheck"
      using Inr by (rule mapE_length)
    show ?thesis
      using cell Inr cEst_loop_sum [OF Inr, of vzero]
        pyramid_loop_sum [OF Inr, of cIndex "estimatedCentroid infos" vzero 0]
      by (simp add: cellCentreAndVolume_def cellCentreAndVolume_guarded_def Let_def
          estimatedCentroid_def [symmetric] len [symmetric]
          accumulatedVolume_def accumulatedCentre_def)
  qed
qed

lemma tetEps_pos: "0 < tetEps"
  by (simp add: tetEps_def)

lemma VSMALL_tetEps: "VSMALL exampleLib = tetEps * tetEps"
  by (simp add: exampleLib_def tetEps_def power_add [symmetric])

lemma tet_faceInfos:
  "mapE (faceInfo exampleLib tetPoints tetFaces [0, 0, 0, 0]) [0, 1, 2, 3] = Inr tetInfos"
  by (simp add: faceInfo_def faceCentre_def faceNormal_def elemAt_def tetPoints_def tetFaces_def
      exampleLib_def triFaceCentre_def triFaceNormal_def triangleNormal_def tetInfos_def
      vadd_def vsub_def smul_def cross_def)

lemma tet_estimatedCentroid:
  "estimatedCentroid tetInfos = Vector (1 / 4) (tetEps / 4) (tetEps / 4)"
  by (simp add: estimatedCentroid_def tetInfos_def vadd_def vdiv_def vzero_def)

lemma tet_accumulatedVolume: "accumulatedVolume 0 tetInfos = tetEps * tetEps / 2"
  unfolding accumulatedVolume_def tet_estimatedCentroid
  by (simp add: tetInfos_def pyr3Vol_def orientedArea_def dot_def vsub_def field_simps)

lemma tet_accumulatedCentre:
  "accumulatedCentre 0 tetInfos =
   Vector (tetEps * tetEps / 8) (tetEps * tetEps * tetEps / 8) (tetEps * tetEps * tetEps / 8)"
  unfolding accumulatedCentre_def tet_estimatedCentroid
  by (simp add: tetInfos_def pyr3Vol_def orientedArea_def pyramidCentre_def dot_def vsub_def
      vadd_def smul_def vzero_def field_simps)

lemma tet_cell: "elemAt [[0, 1, 2, 3 :: label]] 0 = Inr [0, 1, 2, 3]"
  by (simp add: elemAt_def)

lemma tet_guarded_value:
  "cellCentreAndVolume_guarded exampleLib 0 tetPoints tetFaces [[0, 1, 2, 3]] [0, 0, 0, 0] =
   Inr (Vector (1 / 12) (tetEps / 12) (tetEps / 12), tetEps * tetEps / 6)"
  unfolding cellCentreAndVolume_guarded_def tet_cell bindE_Inr tet_faceInfos
    tet_accumulatedVolume tet_accumulatedCentre VSMALL_tetEps
  using tetEps_pos by (simp add: vdiv_def field_simps)

lemma tet_described_value:
  "cellCentreAndVolume_described exampleLib 0 tetPoints tetFaces [[0, 1, 2, 3]] [0, 0, 0, 0] =
   Inr (Vector (1 / 4) (tetEps / 4) (tetEps / 4), tetEps * tetEps / 6)"
  unfolding cellCentreAndVolume_described_def tet_cell bindE_Inr tet_faceInfos
    tet_accumulatedVolume tet_accumulatedCentre
  using tetEps_pos by (simp add: vdiv_def field_simps)

text \<open>
  C4 as stated fails on the thin cell: the code returns the centroid
  \<open>(1/12, eps/12, eps/12)\<close>, the description (accumulated centre divided by accumulated
  volume) gives \<open>(1/4, eps/4, eps/4)\<close>.
\<close>

theorem cellCentreAndVolume_described_counterexample:
  "cellCentreAndVolume exampleLib 0 tetPoints tetFaces [[0, 1, 2, 3]] [0, 0, 0, 0] =
     Inr (Vector (1 / 12) (tetEps / 12) (tetEps / 12), tetEps * tetEps / 6) \<and>
   cellCentreAndVolume_described exampleLib 0 tetPoints tetFaces [[0, 1, 2, 3]] [0, 0, 0, 0] =
     Inr (Vector (1 / 4) (tetEps / 4) (tetEps / 4), tetEps * tetEps / 6) \<and>
   cellCentreAndVolume exampleLib 0 tetPoints tetFaces [[0, 1, 2, 3]] [0, 0, 0, 0] \<noteq>
     cellCentreAndVolume_described exampleLib 0 tetPoints tetFaces [[0, 1, 2, 3]] [0, 0, 0, 0]"
  by (simp add: cellCentreAndVolume_eq_guarded tet_guarded_value tet_described_value)

text \<open>
  C4, amended. \<open>cellCentreAndVolume\<close> computes the estimated centroid as the average of
  the face centres, turns the area vector of a face over exactly when the owner of the
  face is not the cell, accumulates \<open>3 * pyramid volume\<close> and the volume-weighted pyramid
  centres \<open>3/4 fCentre + 1/4 cEst\<close>, and returns the accumulated centre divided by
  \<open>accumulated volume + VSMALL\<close> together with a third of the accumulated volume. A
  read outside an array is a fault of both sides.
\<close>

theorem cellCentreAndVolume_guarded_division:
  "cellCentreAndVolume lib cIndex points faces cells owner =
   cellCentreAndVolume_guarded lib cIndex points faces cells owner"
  by (rule cellCentreAndVolume_eq_guarded)

theorem cellCentreAndVolume_guarded_division_witness:
  "cellCentreAndVolume exampleLib 0 tetPoints tetFaces [[0, 1, 2, 3]] [0, 0, 0, 0] =
   Inr (Vector (1 / 12) (tetEps / 12) (tetEps / 12), tetEps * tetEps / 6)"
  using cellCentreAndVolume_guarded_division
    [of exampleLib 0 tetPoints tetFaces "[[0, 1, 2, 3]]" "[0, 0, 0, 0]"]
  by (simp add: tet_guarded_value)

section \<open>insertLabel and insertPointLabels: where the label goes\<close>

lemma insertLabel_loop_found:
  "insertLabel_loop newLabel labelA labelB list js (acc, True) = (acc @ map ((!) list) js, True)"
  by (induction js arbitrary: acc) (simp_all add: Let_def)

lemma insertLabel_loop_none:
  "\<forall>j\<in>set js. \<not> adjacentAt list labelA labelB j \<Longrightarrow> \<forall>j\<in>set js. j < length list \<Longrightarrow>
   insertLabel_loop newLabel labelA labelB list js (acc, False) =
     (acc @ map ((!) list) js, False)"
  by (induction js arbitrary: acc) (auto simp: Let_def adjacentAt_def)

lemma insertLabel_loop_first:
  assumes "\<forall>j\<in>set pre. \<not> adjacentAt list labelA labelB j" "\<forall>j\<in>set pre. j < length list"
    and "adjacentAt list labelA labelB k"
  shows "insertLabel_loop newLabel labelA labelB list (pre @ k # post) (acc, False) =
     (acc @ map ((!) list) pre @ [list ! k, newLabel] @ map ((!) list) post, True)"
  using assms
proof (induction pre arbitrary: acc)
  case Nil
  then show ?case
    by (auto simp: Let_def adjacentAt_def insertLabel_loop_found)
next
  case (Cons j pre)
  then have "\<not> adjacentAt list labelA labelB j" "j < length list" by simp_all
  then have step: "insertLabel_loop newLabel labelA labelB list ((j # pre) @ k # post) (acc, False) =
      insertLabel_loop newLabel labelA labelB list (pre @ k # post) (acc @ [list ! j], False)"
    by (auto simp: Let_def adjacentAt_def)
  show ?case
    unfolding step using Cons by simp
qed

lemma map_nth_upt_drop: "map ((!) xs) [k..<length xs] = drop k xs"
  by (metis drop_map map_nth drop_upt add_0)

lemma map_nth_upt_take: "k \<le> length xs \<Longrightarrow> map ((!) xs) [0..<k] = take k xs"
  by (metis take_map map_nth take_upt add_0)

lemma insertLabel_at_first:
  assumes "adjacentAt list labelA labelB k"
    and "\<forall>j<k. \<not> adjacentAt list labelA labelB j"
  shows "insertLabel newLabel labelA labelB list =
         Inr (take (Suc k) list @ newLabel # drop (Suc k) list)"
proof -
  have k: "k < length list" using assms(1) by (simp add: adjacentAt_def)
  have "insertLabel_loop newLabel labelA labelB list ([0..<k] @ k # [Suc k..<length list])
          ([], False) =
        ([] @ map ((!) list) [0..<k] @ [list ! k, newLabel] @
           map ((!) list) [Suc k..<length list], True)"
    using assms k by (intro insertLabel_loop_first) auto
  then have "insertLabel_loop newLabel labelA labelB list [0..<length list] ([], False) =
        (take k list @ [list ! k, newLabel] @ drop (Suc k) list, True)"
    using k by (simp add: upt_split_at [symmetric] map_nth_upt_drop map_nth_upt_take)
  then show ?thesis
    using k by (simp add: insertLabel_def take_Suc_conv_app_nth)
qed

lemma insertLabel_absent:
  assumes "\<forall>k. \<not> adjacentAt list labelA labelB k"
  shows "insertLabel newLabel labelA labelB list = Inl (FatalError ''Cannot insert '')"
proof -
  have "insertLabel_loop newLabel labelA labelB list [0..<length list] ([], False) =
        ([] @ map ((!) list) [0..<length list], False)"
    using assms by (intro insertLabel_loop_none) auto
  then show ?thesis by (simp add: insertLabel_def)
qed

lemma first_adjacent:
  assumes "adjacentAt list labelA labelB k0"
  obtains k where "adjacentAt list labelA labelB k" "\<forall>j<k. \<not> adjacentAt list labelA labelB j"
    "k \<le> k0"
proof -
  define k where "k = (LEAST k. adjacentAt list labelA labelB k)"
  have a: "adjacentAt list labelA labelB k"
    unfolding k_def using assms by (rule LeastI)
  have b: "\<forall>j<k. \<not> adjacentAt list labelA labelB j"
    unfolding k_def using not_less_Least by blast
  have c: "k \<le> k0" unfolding k_def using assms by (rule Least_le)
  from a b c show ?thesis by (rule that)
qed

lemma adjacent_unique:
  assumes "distinct f" "3 \<le> length f" "pI < length f"
    and "adjacentAt f (f ! pI) (f ! fcIndex f pI) k"
  shows "k = pI"
proof -
  have k: "k < length f" using assms(4) by (simp add: adjacentAt_def)
  have fk: "fcIndex f k < length f" and fp: "fcIndex f pI < length f"
    using k assms(3) by (simp_all add: fcIndex_less)
  from assms(4) consider "f ! k = f ! pI"
    | "f ! k = f ! fcIndex f pI" "f ! fcIndex f k = f ! pI"
    by (auto simp: adjacentAt_def)
  then show ?thesis
  proof cases
    case 1
    then show ?thesis using assms(1,3) k by (simp add: nth_eq_iff_index_eq)
  next
    case 2
    then have "k = fcIndex f pI" "fcIndex f k = pI"
      using assms(1,3) k fk fp by (simp_all add: nth_eq_iff_index_eq)
    then have "fcIndex f (fcIndex f pI) = pI" by simp
    then show ?thesis using assms(2,3) by (auto simp: fcIndex_def split: if_splits)
  qed
qed

lemma insertPointLabels_inner_position:
  assumes "distinct f" "3 \<le> length f" "\<forall>j\<in>set js. j < length f"
    and "insertPointLabels_inner lib refNorm points key f js = Inr f'"
  shows "f' = f \<or> insertedAtPositive lib refNorm points key f f'"
  using assms(3,4)
proof (induction js)
  case Nil
  then show ?case by simp
next
  case (Cons pI js)
  then have pI: "pI < length f" by simp
  from Cons.prems(2) obtain a b c where abc: "elemAt points (f ! pI) = Inr a"
    "elemAt points key = Inr b" "elemAt points (f ! fcIndex f pI) = Inr c"
    by (auto simp: Let_def split: sum.splits)
  show ?case
  proof (cases "sLess lib (sZero lib) (vDot lib refNorm (triNormalOf lib a b c))")
    case True
    then have ins: "insertLabel key (f ! pI) (f ! fcIndex f pI) f = Inr f'"
      using Cons.prems(2) abc by (simp add: Let_def)
    have adj: "adjacentAt f (f ! pI) (f ! fcIndex f pI) pI"
      using pI by (simp add: adjacentAt_def)
    then obtain k where k: "adjacentAt f (f ! pI) (f ! fcIndex f pI) k"
      "\<forall>j<k. \<not> adjacentAt f (f ! pI) (f ! fcIndex f pI) j"
      by (rule first_adjacent)
    have "k = pI" using assms(1,2) pI k(1) by (rule adjacent_unique)
    with k have "insertLabel key (f ! pI) (f ! fcIndex f pI) f =
        Inr (take (Suc pI) f @ key # drop (Suc pI) f)"
      by (simp add: insertLabel_at_first)
    with ins have "f' = take (Suc pI) f @ key # drop (Suc pI) f" by simp
    moreover have "positiveAt lib refNorm points key f pI"
      using abc True by (simp add: positiveAt_def)
    ultimately show ?thesis using pI by (auto simp: insertedAtPositive_def)
  next
    case False
    then have "insertPointLabels_inner lib refNorm points key f js = Inr f'"
      using Cons.prems(2) abc by (simp add: Let_def)
    then show ?thesis using Cons by simp
  qed
qed

lemma insertPointLabel_position:
  assumes "distinct f" "3 \<le> length f"
    and "insertPointLabel lib refNorm points key f = Inr f'"
  shows "f' = f \<or> insertedAtPositive lib refNorm points key f f'"
  using assms(1,2) _ assms(3) [unfolded insertPointLabel_def]
  by (rule insertPointLabels_inner_position) simp

lemma insertedAtPositive_shape:
  assumes "f' = f \<or> insertedAtPositive lib refNorm points key f f'"
    and "distinct f" "3 \<le> length f" "key \<notin> set f"
  shows "distinct f' \<and> 3 \<le> length f' \<and> set f' \<subseteq> insert key (set f)"
proof -
  have "distinct (take (Suc j) f @ key # drop (Suc j) f)" for j
    using assms(2,4) distinct_take [of f "Suc j"] distinct_drop [of f "Suc j"]
      set_take_disj_set_drop_if_distinct [OF assms(2), of "Suc j" "Suc j"]
    by (auto dest: in_set_takeD in_set_dropD)
  moreover have "set (take (Suc j) f @ key # drop (Suc j) f) \<subseteq> insert key (set f)" for j
    by (auto dest: in_set_takeD in_set_dropD)
  moreover have "3 \<le> length (take (Suc j) f @ key # drop (Suc j) f)" for j
    using assms(3) by simp
  ultimately have ins: "distinct g \<and> 3 \<le> length g \<and> set g \<subseteq> insert key (set f)"
    if "g = take (Suc j) f @ key # drop (Suc j) f" for g j
    unfolding that by blast
  show ?thesis
  proof (cases "f' = f")
    case True
    then show ?thesis using assms(2,3) by auto
  next
    case False
    with assms(1) obtain j where "f' = take (Suc j) f @ key # drop (Suc j) f"
      by (auto simp: insertedAtPositive_def)
    then show ?thesis by (rule ins)
  qed
qed

lemma insertsOnlyAtPositive_valid_face:
  assumes "3 \<le> length modFace" "distinct modFace" "distinct pLabels"
    and "set pLabels \<inter> set modFace = {}"
  shows "insertsOnlyAtPositive lib refNorm points pLabels modFace"
  using assms
proof (induction pLabels arbitrary: modFace)
  case Nil
  then show ?case by (simp add: insertsOnlyAtPositive_def)
next
  case (Cons key rest)
  show ?case
  proof (cases "insertPointLabel lib refNorm points key modFace")
    case (Inl e)
    then show ?thesis by (simp add: insertsOnlyAtPositive_def)
  next
    case (Inr face')
    have key: "key \<notin> set modFace" "key \<notin> set rest" "distinct rest"
      using Cons.prems by auto
    have pos: "face' = modFace \<or> insertedAtPositive lib refNorm points key modFace face'"
      using Cons.prems(2,1) Inr by (rule insertPointLabel_position)
    then have shape: "distinct face' \<and> 3 \<le> length face' \<and> set face' \<subseteq> insert key (set modFace)"
      using Cons.prems(2,1) key(1) by (rule insertedAtPositive_shape)
    then have "set rest \<inter> set face' = {}"
      using Cons.prems(4) key(2) by auto
    then have "insertsOnlyAtPositive lib refNorm points rest face'"
      using shape key(3) by (intro Cons.IH) auto
    then show ?thesis
      using Inr pos by (simp add: insertsOnlyAtPositive_def)
  qed
qed

text \<open>
  C6, amended. When \<open>labelA\<close> and \<open>labelB\<close> are circularly adjacent somewhere in the
  list (in either order), \<open>insertLabel\<close> returns the list with \<open>newLabel\<close> put right
  after the first such position \<open>k\<close>: one entry longer, the entries of the list before
  and after it in their order. When they are adjacent nowhere, the result is the fatal
  error. For a face of at least three labels, all different, and keys that are not labels
  of the face, every pass of \<open>insertPointLabels\<close> leaves the face alone or puts the key
  right after a position whose triangle (label, key, next label) has a normal with a
  positive computed component along \<open>refNorm\<close>.
\<close>

theorem insertLabel_position_and_orientation:
  "((\<exists>k. adjacentAt list labelA labelB k) \<longrightarrow>
      (\<exists>k. adjacentAt list labelA labelB k \<and> (\<forall>j<k. \<not> adjacentAt list labelA labelB j) \<and>
           insertLabel newLabel labelA labelB list =
             Inr (take (Suc k) list @ newLabel # drop (Suc k) list))) \<and>
   ((\<forall>k. \<not> adjacentAt list labelA labelB k) \<longrightarrow>
      insertLabel newLabel labelA labelB list = Inl (FatalError ''Cannot insert '')) \<and>
   (3 \<le> length modFace \<and> distinct modFace \<and> distinct pLabels \<and>
    set pLabels \<inter> set modFace = {} \<longrightarrow>
      insertsOnlyAtPositive lib refNorm points pLabels modFace)"
proof (intro conjI impI)
  assume "\<exists>k. adjacentAt list labelA labelB k"
  then obtain k0 where "adjacentAt list labelA labelB k0" ..
  then obtain k where k: "adjacentAt list labelA labelB k"
    "\<forall>j<k. \<not> adjacentAt list labelA labelB j"
    by (rule first_adjacent)
  then have "insertLabel newLabel labelA labelB list =
      Inr (take (Suc k) list @ newLabel # drop (Suc k) list)"
    by (rule insertLabel_at_first)
  with k show "\<exists>k. adjacentAt list labelA labelB k \<and> (\<forall>j<k. \<not> adjacentAt list labelA labelB j) \<and>
           insertLabel newLabel labelA labelB list =
             Inr (take (Suc k) list @ newLabel # drop (Suc k) list)"
    by blast
next
  assume "\<forall>k. \<not> adjacentAt list labelA labelB k"
  then show "insertLabel newLabel labelA labelB list = Inl (FatalError ''Cannot insert '')"
    by (rule insertLabel_absent)
next
  assume "3 \<le> length modFace \<and> distinct modFace \<and> distinct pLabels \<and>
    set pLabels \<inter> set modFace = {}"
  then show "insertsOnlyAtPositive lib refNorm points pLabels modFace"
    by (intro insertsOnlyAtPositive_valid_face) simp_all
qed

lemma example_adjacent_2_3: "adjacentAt [1, 2, 3, 4] 2 3 k \<longleftrightarrow> k = 1"
  by (auto simp: adjacentAt_def fcIndex_def nth_Cons' less_Suc_eq numeral_eq_Suc)

lemma example_adjacent_4_1: "adjacentAt [1, 2, 3, 4] 4 1 k \<longleftrightarrow> k = 3"
  by (auto simp: adjacentAt_def fcIndex_def nth_Cons' less_Suc_eq numeral_eq_Suc)

lemma example_adjacent_1_3: "\<not> adjacentAt [1, 2, 3, 4] 1 3 k"
  by (auto simp: adjacentAt_def fcIndex_def nth_Cons' less_Suc_eq numeral_eq_Suc)

theorem insertLabel_position_and_orientation_witness:
  "insertLabel 9 2 3 [1, 2, 3, 4] = Inr [1, 2, 9, 3, 4] \<and>
   insertLabel 9 4 1 [1, 2, 3, 4] = Inr [1, 2, 3, 4, 9] \<and>
   insertLabel 9 1 3 [1, 2, 3, 4] = Inl (FatalError ''Cannot insert '') \<and>
   insertsOnlyAtPositive exampleLib (Vector 0 0 1)
     [Vector 0 0 0, Vector 1 0 0, Vector 0 1 0, Vector 1 1 0] [3] [0, 1, 2]"
proof -
  have a: "insertLabel 9 2 3 [1, 2, 3, 4] = Inr [1, 2, 9, 3, 4]"
    using insertLabel_position_and_orientation [THEN conjunct1, of "[1, 2, 3, 4]" 2 3 9]
    by (simp add: example_adjacent_2_3)
  have b: "insertLabel 9 4 1 [1, 2, 3, 4] = Inr [1, 2, 3, 4, 9]"
    using insertLabel_position_and_orientation [THEN conjunct1, of "[1, 2, 3, 4]" 4 1 9]
    by (simp add: example_adjacent_4_1)
  have c: "insertLabel 9 1 3 [1, 2, 3, 4] = Inl (FatalError ''Cannot insert '')"
    using insertLabel_position_and_orientation
      [THEN conjunct2, THEN conjunct1, of "[1, 2, 3, 4]" 1 3 9]
    by (simp add: example_adjacent_1_3)
  have d: "insertsOnlyAtPositive exampleLib (Vector 0 0 1)
     [Vector 0 0 0, Vector 1 0 0, Vector 0 1 0, Vector 1 1 0] [3] [0, 1, 2]"
    using insertLabel_position_and_orientation
      [THEN conjunct2, THEN conjunct2, of "[0, 1, 2]" "[3]"]
    by simp
  from a b c d show ?thesis by simp
qed

text \<open>
  C6 as stated fails on a face of two labels: for the key 2 the test fails at position 0
  and succeeds at position 1 (between the labels 1 and 0), and \<open>insertLabel\<close>, which
  accepts the two labels in either order, puts the key after position 0, where the
  triangle normal has a negative component along \<open>refNorm\<close>.
\<close>

lemma example_two_label_face:
  "insertPointLabel exampleLib (Vector 0 0 1) [Vector 0 0 0, Vector 1 0 0, Vector 0 1 0] 2 [0, 1] =
   Inr [0, 2, 1]"
  by (simp add: insertPointLabel_def insertLabel_def fcIndex_def elemAt_def exampleLib_sel
      triangleNormal_def cross_def vsub_def smul_def dot_def Let_def upt_rec [of 0])

lemma example_two_label_negative:
  "\<not> positiveAt exampleLib (Vector 0 0 1) [Vector 0 0 0, Vector 1 0 0, Vector 0 1 0] 2 [0, 1] 0"
  by (simp add: positiveAt_def fcIndex_def elemAt_def exampleLib_sel
      triangleNormal_def cross_def vsub_def smul_def dot_def)

theorem insertPointLabels_position_counterexample:
  "insertPointLabels exampleLib (Vector 0 0 1) [Vector 0 0 0, Vector 1 0 0, Vector 0 1 0] [2] [0, 1] =
     Inr [0, 2, 1] \<and>
   \<not> positiveAt exampleLib (Vector 0 0 1) [Vector 0 0 0, Vector 1 0 0, Vector 0 1 0] 2 [0, 1] 0 \<and>
   \<not> insertsOnlyAtPositive exampleLib (Vector 0 0 1)
       [Vector 0 0 0, Vector 1 0 0, Vector 0 1 0] [2] [0, 1]"
proof -
  have "\<not> insertedAtPositive exampleLib (Vector 0 0 1)
       [Vector 0 0 0, Vector 1 0 0, Vector 0 1 0] 2 [0, 1] [0, 2, 1]"
    using example_two_label_negative
    by (auto simp: insertedAtPositive_def less_Suc_eq numeral_eq_Suc)
  then show ?thesis
    using example_two_label_negative
    by (simp add: insertPointLabels_def insertsOnlyAtPositive_def example_two_label_face)
qed

end
